theory Spec2Isabelle
  imports Main "HOL-Library.Extended_Nat"
begin

section \<open>Semantic values and parse states\<close>

text \<open>
  Engine faults are the exceptions of the source: the \<open>RangeError\<close> of the two state
  constructors, the \<open>Error\<close> thrown by the ambiguity guard of a symbol parser, and the
  \<open>TypeError\<close> of the host language when a property of \<open>undefined\<close> is read.
\<close>

datatype fault = RangeError | TypeError | MaxAmbiguityBreadth

text \<open>
  \<open>Identifiable\<close>: a semantic value with a string identity. \<open>NoSemantics\<close> has the
  empty identity and no payload; \<open>SameSemantics v\<close> is \<open>Semantics [] v\<close> and
  \<open>StaticSemantics i v\<close> is \<open>Semantics i v\<close>. A \<open>null\<close> or \<open>undefined\<close> semantic value
  is written \<open>NoSemantics\<close>: both constructors replace it by \<open>new NoSemantics()\<close>.
\<close>

datatype 'v semantics = NoSemantics | Semantics string 'v

fun identity :: "'v semantics \<Rightarrow> string" where
  "identity NoSemantics = []"
| "identity (Semantics i v) = i"

definition SameSemantics :: "'v \<Rightarrow> 'v semantics" where
  "SameSemantics v = Semantics [] v"

definition StaticSemantics :: "string \<Rightarrow> 'v \<Rightarrow> 'v semantics" where
  "StaticSemantics i v = Semantics i v"

text \<open>
  \<open>ParseState = ParseResult | ParseError\<close> (\<open>index.ts\<close>, lines 202-259 and 302-356).
  The datatype constructors build the object without any check; \<open>new_ParseResult\<close> and
  \<open>new_ParseError\<close> below are the class constructors of the source, with their checks.
  \<open>index\<close> is a number of the host language, taken here as an integer (it may be
  negative). A string is the list of its code units, so that \<open>length\<close> is the
  \<open>length\<close> property of the source.
\<close>

datatype ('d, 'e) parse_state =
    ParseResult (target: string) (index: int) (result: "string list") (data: "'d semantics")
  | isError: ParseError (target: string) (index: int) (result: "string list") (error: "'e semantics")

definition new_ParseResult ::
  "string \<Rightarrow> int \<Rightarrow> string list \<Rightarrow> 'd semantics \<Rightarrow> fault + ('d, 'e) parse_state" where
  "new_ParseResult target' index' result' data' =
     (if index' > int (length target') then Inl RangeError
      else if int (length (concat result')) > index' then Inl RangeError
      else Inr (ParseResult target' index' result' data'))"

definition new_ParseError ::
  "string \<Rightarrow> int \<Rightarrow> string list \<Rightarrow> 'e semantics \<Rightarrow> fault + ('d, 'e) parse_state" where
  "new_ParseError target' index' result' error' =
     (if index' > int (length target') then Inl RangeError
      else Inr (ParseError target' index' result' error'))"

text \<open>
  The rendering of an index inside a template string, \<open>`${this.index}`\<close>: the host's
  conversion of a number to a string, for the integer-valued numbers. Below \<open>2^53\<close> every
  integer is a number of the host and is written with all its decimal digits. From there
  on an integer stands for the nearest number of the host (\<open>nearest_double\<close>: 53
  significant bits, ties to even, \<open>Infinity\<close> from \<open>2^1024 - 2^970\<close>); it is written with
  the fewest significant digits that still denote that number (\<open>shortest_digits\<close>, the
  closest such digits, the even ones on a tie), followed by zeros below \<open>10^21\<close> and in
  exponent form from \<open>10^21\<close> on: \<open>1e+21\<close>, \<open>1.1805916207174113e+21\<close>.
\<close>

definition digit_char :: "nat \<Rightarrow> char" where
  "digit_char n = ''0123456789'' ! n"

function decimal :: "int \<Rightarrow> string" where
  "decimal n = (if n < 10 then [digit_char (nat n)] else decimal (n div 10) @ [digit_char (nat (n mod 10))])"
  by pat_completeness auto
termination
  by (relation "measure nat") auto

function ndigits :: "int \<Rightarrow> int \<Rightarrow> nat" where
  "ndigits b n = (if n < b \<or> b < 2 then 1 else Suc (ndigits b (n div b)))"
  by pat_completeness auto
termination
  by (relation "measure (\<lambda>(b, n). nat n)") (auto intro: int_div_less_self)

definition nearest_double :: "int \<Rightarrow> int" where
  "nearest_double n =
     (let l = ndigits 2 n
      in if l \<le> 53 then n
         else let e = l - 53;
                  q = n div 2 ^ e;
                  r = n mod 2 ^ e
              in (if 2 * r > 2 ^ e \<or> (2 * r = 2 ^ e \<and> odd q) then q + 1 else q) * 2 ^ e)"

text \<open>
  \<open>shortest_digits x nx ks\<close> gives \<open>(s, k, n)\<close> with \<open>s\<close> of \<open>k\<close> digits and \<open>s * 10^(n - k)\<close>
  denoting the number \<open>x\<close> of \<open>nx\<close> digits, for the first \<open>k\<close> of \<open>ks\<close> that has such an \<open>s\<close>.
\<close>

fun shortest_digits :: "int \<Rightarrow> nat \<Rightarrow> nat list \<Rightarrow> int \<times> nat \<times> nat" where
  "shortest_digits x nx [] = (x, nx, nx)"
| "shortest_digits x nx (k # ks) =
     (let j = nx - k;
          lo = x div 10 ^ j;
          fits = (\<lambda>c. 10 ^ (k - 1) \<le> c \<and> c < 10 ^ k \<and> nearest_double (c * 10 ^ j) = x)
      in if fits lo \<and> fits (lo + 1)
         then (if x - lo * 10 ^ j < (lo + 1) * 10 ^ j - x then (lo, k, nx)
               else if (lo + 1) * 10 ^ j - x < x - lo * 10 ^ j then (lo + 1, k, nx)
               else if even lo then (lo, k, nx) else (lo + 1, k, nx))
         else if fits lo then (lo, k, nx)
         else if fits (lo + 1) then (lo + 1, k, nx)
         else shortest_digits x nx ks)"

text \<open>\<open>Number_toString m\<close> for an integer \<open>m \<ge> 0\<close>; the sign is written by \<open>string_of_int\<close>.\<close>

definition Number_toString :: "int \<Rightarrow> string" where
  "Number_toString m =
     (if m < 9007199254740992 then decimal m
      else let x = nearest_double m;
               nx = ndigits 10 x
           in if x \<ge> 2 ^ 1024 then ''Infinity''
              else (case (if nearest_double (10 ^ nx) = x then (1, 1, nx + 1)
                          else shortest_digits x nx [1 ..< Suc nx]) of
                      (s, k, n) \<Rightarrow>
                        if n \<le> 21 then decimal s @ replicate (n - k) CHR ''0''
                        else if k = 1 then decimal s @ ''e+'' @ decimal (int (n - 1))
                        else hd (decimal s) # CHR ''.'' # tl (decimal s)
                               @ ''e+'' @ decimal (int (n - 1))))"

definition string_of_int :: "int \<Rightarrow> string" where
  "string_of_int i = (if i < 0 then CHR ''-'' # Number_toString (- i) else Number_toString i)"

text \<open>The \<open>identity\<close> getter of the two state classes (lines 256-258 and 353-355).\<close>

fun state_identity :: "('d, 'e) parse_state \<Rightarrow> string" where
  "state_identity (ParseResult t i r d) =
     t @ ''_'' @ string_of_int i @ (if length (identity d) > 0 then ''_'' @ identity d else [])"
| "state_identity (ParseError t i r e) =
     t @ ''_'' @ string_of_int i @ (if length (identity e) > 0 then ''_'' @ identity e else [])"

text \<open>
  \<open>updateParseResult(old, index, data, newResult?)\<close> (lines 276-288): the optional token
  is appended when it is truthy, that is, when it is given and is not the empty string.
  \<open>updateParseError\<close> is at lines 371-381.
\<close>

definition updateParseResult ::
  "('d, 'e) parse_state \<Rightarrow> int \<Rightarrow> 'd semantics \<Rightarrow> string option \<Rightarrow> fault + ('d, 'e) parse_state" where
  "updateParseResult old index' data' newResult =
     new_ParseResult (target old) index'
       (case newResult of
          None \<Rightarrow> result old
        | Some tok \<Rightarrow> if tok \<noteq> [] then result old @ [tok] else result old)
       data'"

definition updateParseError ::
  "('d, 'e) parse_state \<Rightarrow> 'e semantics \<Rightarrow> fault + ('d, 'e) parse_state" where
  "updateParseError old error' = new_ParseError (target old) (index old) (result old) error'"

text \<open>The checks a state has passed when it came out of its class constructor.\<close>

fun constructed :: "('d, 'e) parse_state \<Rightarrow> bool" where
  "constructed (ParseResult t i r d) = (i \<le> int (length t) \<and> int (length (concat r)) \<le> i)"
| "constructed (ParseError t i r e) = (i \<le> int (length t))"

section \<open>Token parsers\<close>

text \<open>
  A \<open>TokenParser\<close> object owns a memotable and a current target. The objects live in a
  store indexed by addresses; a transformer is a function of the input state and the
  store, which may throw (\<open>Inl\<close>) or not return (\<open>None\<close>).
\<close>

record ('d, 'e) token_memo =
  t_currentTarget :: string
  t_memotable :: "string \<rightharpoonup> ('d, 'e) parse_state"

type_synonym ('d, 'e) theap = "nat \<Rightarrow> ('d, 'e) token_memo"

type_synonym ('d, 'e) outcome = "((fault + ('d, 'e) parse_state) \<times> ('d, 'e) theap) option"

type_synonym ('d, 'e) ttransformer = "('d, 'e) parse_state \<Rightarrow> ('d, 'e) theap \<Rightarrow> ('d, 'e) outcome"

type_synonym 'e ParseErrorProduction = "string \<Rightarrow> int \<Rightarrow> 'e semantics"

definition fresh_memo :: "('d, 'e) token_memo" where
  "fresh_memo = \<lparr>t_currentTarget = [], t_memotable = Map.empty\<rparr>"

definition fresh_heap :: "('d, 'e) theap" where
  "fresh_heap = (\<lambda>a. fresh_memo)"

text \<open>
  The \<open>transformer\<close> field that the constructor of \<open>TokenParser\<close> (lines 480-497)
  installs around the transformer it is given; \<open>self\<close> is the address of the object.
  Every combinator below is given as the transformer it passes to this constructor
  (\<open>many_transformer\<close>, ...) and as the parser object built from it (\<open>many self\<close>, ...).
\<close>

definition TokenParser :: "nat \<Rightarrow> ('d, 'e) ttransformer \<Rightarrow> ('d, 'e) ttransformer" where
  "TokenParser self transformer state h =
     (let h1 = (if target state \<noteq> t_currentTarget (h self)
                then h(self := \<lparr>t_currentTarget = target state, t_memotable = Map.empty\<rparr>)
                else h)
      in case t_memotable (h1 self) (state_identity state) of
           Some memoised \<Rightarrow> Some (Inr memoised, h1)
         | None \<Rightarrow>
             (case transformer state h1 of
                None \<Rightarrow> None
              | Some (Inl f, h2) \<Rightarrow> Some (Inl f, h2)
              | Some (Inr nextState, h2) \<Rightarrow>
                  Some (Inr nextState,
                        h2(self := (h2 self)\<lparr>t_memotable :=
                              (t_memotable (h2 self))(state_identity state \<mapsto> nextState)\<rparr>))))"



text \<open>
  The same wrapper for a \<open>TokenParser\<close> that is constructed inside a call and dropped
  when the call returns (the \<open>many(parser)\<close> of \<open>many1\<close>, the links of \<open>chain\<close>): its table
  starts empty and nothing can read it afterwards, so it is not put in the store.
\<close>

definition TokenParser_local :: "('d, 'e) ttransformer \<Rightarrow> ('d, 'e) ttransformer" where
  "TokenParser_local transformer state h =
     (let m0 = fresh_memo :: ('d, 'e) token_memo;
          m1 = (if target state \<noteq> t_currentTarget m0
                then \<lparr>t_currentTarget = target state, t_memotable = Map.empty\<rparr>
                else m0)
      in case t_memotable m1 (state_identity state) of
           Some memoised \<Rightarrow> Some (Inr memoised, h)
         | None \<Rightarrow> transformer state h)"

definition TokenParser_run ::
  "('d, 'e) ttransformer \<Rightarrow> string \<Rightarrow> 'd semantics \<Rightarrow> int option \<Rightarrow> ('d, 'e) theap
     \<Rightarrow> ((fault + ('d, 'e) parse_state list) \<times> ('d, 'e) theap) option" where
  "TokenParser_run transformer target' data' index' h =
     (case new_ParseResult target' (case index' of None \<Rightarrow> 0 | Some i \<Rightarrow> i) [] data' of
        Inl f \<Rightarrow> Some (Inl f, h)
      | Inr state \<Rightarrow>
          (case transformer state h of
             None \<Rightarrow> None
           | Some (Inl f, h') \<Rightarrow> Some (Inl f, h')
           | Some (Inr out, h') \<Rightarrow> Some (Inr [out], h')))"

subsection \<open>Host string operations\<close>

definition slice :: "string \<Rightarrow> int \<Rightarrow> string" where
  "slice s i = (if i < 0 then drop (nat (max 0 (int (length s) + i))) s else drop (nat i) s)"

definition startsWith :: "string \<Rightarrow> string \<Rightarrow> bool" where
  "startsWith s p = (take (length p) s = p)"

definition substring :: "string \<Rightarrow> int \<Rightarrow> int \<Rightarrow> string" where
  "substring s a b =
     (let n = int (length s);
          a' = max 0 (min a n);
          b' = max 0 (min b n);
          lo = min a' b';
          hi = max a' b'
      in take (nat (hi - lo)) (drop (nat lo) s))"

subsection \<open>str and regex\<close>

text \<open>Lines 902-921 and 938-958.\<close>

definition str_transformer ::
  "string \<Rightarrow> 'e ParseErrorProduction \<Rightarrow> 'e ParseErrorProduction \<Rightarrow> ('d, 'e) ttransformer" where
  "str_transformer s EOFError matchError state h =
     (if isError state then Some (Inr state, h)
      else if index state \<ge> int (length (target state))
      then Some (updateParseError state (EOFError (target state) (index state)), h)
      else if \<not> startsWith (slice (target state) (index state)) s
      then Some (updateParseError state (matchError (target state) (index state)), h)
      else Some (updateParseResult state (index state + int (length s)) (data state) (Some s), h))"

definition str ::
  "nat \<Rightarrow> string \<Rightarrow> 'e ParseErrorProduction \<Rightarrow> 'e ParseErrorProduction \<Rightarrow> ('d, 'e) ttransformer" where
  "str self s EOFError matchError = TokenParser self (str_transformer s EOFError matchError)"

text \<open>
  The regular expression is a black box: \<open>regex'\<close> gives \<open>match[0]\<close> of
  \<open>target.match(regex)\<close> on the rest of the input, or \<open>None\<close> for no match.
\<close>

definition regex_transformer ::
  "(string \<Rightarrow> string option) \<Rightarrow> 'e ParseErrorProduction \<Rightarrow> 'e ParseErrorProduction
     \<Rightarrow> ('d, 'e) ttransformer" where
  "regex_transformer regex' EOFError matchError state h =
     (if isError state then Some (Inr state, h)
      else if index state \<ge> int (length (target state))
      then Some (updateParseError state (EOFError (target state) (index state)), h)
      else (case regex' (slice (target state) (index state)) of
              None \<Rightarrow> Some (updateParseError state (matchError (target state) (index state)), h)
            | Some m \<Rightarrow>
                Some (updateParseResult state (index state + int (length m)) (data state) (Some m), h)))"

definition regex ::
  "nat \<Rightarrow> (string \<Rightarrow> string option) \<Rightarrow> 'e ParseErrorProduction \<Rightarrow> 'e ParseErrorProduction
     \<Rightarrow> ('d, 'e) ttransformer" where
  "regex self regex' EOFError matchError = TokenParser self (regex_transformer regex' EOFError matchError)"

subsection \<open>many and many1\<close>

text \<open>
  The \<open>while (true)\<close> loop of \<open>many\<close> (lines 968-990); \<open>None\<close> when it does not return.
  \<open>many1\<close> (lines 1004-1020) constructs \<open>many(parser)\<close> anew at every call.
\<close>

partial_function (option) many_loop ::
  "('d, 'e) ttransformer \<Rightarrow> ('d, 'e) parse_state \<Rightarrow> ('d, 'e) theap
     \<Rightarrow> ((fault + ('d, 'e) parse_state) \<times> ('d, 'e) theap) option" where
  "many_loop parser nextState h =
     (case parser nextState h of
        None \<Rightarrow> None
      | Some (Inl f, h') \<Rightarrow> Some (Inl f, h')
      | Some (Inr output, h') \<Rightarrow>
          if isError output then Some (Inr nextState, h')
          else if index output \<ge> int (length (target output)) then Some (Inr output, h')
          else many_loop parser output h')"

definition many_transformer :: "('d, 'e) ttransformer \<Rightarrow> ('d, 'e) ttransformer" where
  "many_transformer parser state h =
     (if isError state then Some (Inr state, h) else many_loop parser state h)"


definition many1_transformer ::
  "('d, 'e) ttransformer \<Rightarrow> 'e ParseErrorProduction \<Rightarrow> ('d, 'e) ttransformer" where
  "many1_transformer parser matchError state h =
     (if isError state then Some (Inr state, h)
      else (case TokenParser_local (many_transformer parser) state h of
              None \<Rightarrow> None
            | Some (Inl f, h') \<Rightarrow> Some (Inl f, h')
            | Some (Inr nextState, h') \<Rightarrow>
                if \<not> isError nextState \<and> length (result nextState) = 0
                then Some (updateParseError state (matchError (target state) (index state)), h')
                else Some (Inr nextState, h')))"

definition many1 ::
  "nat \<Rightarrow> ('d, 'e) ttransformer \<Rightarrow> 'e ParseErrorProduction \<Rightarrow> ('d, 'e) ttransformer" where
  "many1 self parser matchError = TokenParser self (many1_transformer parser matchError)"

subsection \<open>optional, until, choice, lookahead\<close>











subsection \<open>error, recovery, assert, map\<close>

definition error_transformer :: "'e semantics \<Rightarrow> ('d, 'e) ttransformer" where
  "error_transformer error' state h =
     (if isError state then Some (Inr state, h) else Some (updateParseError state error', h))"

definition error_parser :: "nat \<Rightarrow> 'e semantics \<Rightarrow> ('d, 'e) ttransformer" where
  "error_parser self error' = TokenParser self (error_transformer error')"

definition recovery_transformer :: "'d semantics \<Rightarrow> ('d, 'e) ttransformer" where
  "recovery_transformer data' state h =
     (if \<not> isError state then Some (Inr state, h)
      else Some (updateParseResult state (index state) data' None, h))"

definition recovery :: "nat \<Rightarrow> 'd semantics \<Rightarrow> ('d, 'e) ttransformer" where
  "recovery self data' = TokenParser self (recovery_transformer data')"

text \<open>
  \<open>error\<close> is at lines 1202-1211, \<open>recovery\<close> at 1231-1240, the token branch of \<open>assert\<close> at
  1268-1285. The assertion returns an error value, or \<open>null\<close> (\<open>None\<close>) when it holds.
\<close>

definition assert_transformer ::
  "('d, 'e) ttransformer \<Rightarrow> (('d, 'e) parse_state \<Rightarrow> 'e semantics option) \<Rightarrow> ('d, 'e) ttransformer" where
  "assert_transformer parser assertion state h =
     (if isError state then Some (Inr state, h)
      else (case parser state h of
              None \<Rightarrow> None
            | Some (Inl f, h') \<Rightarrow> Some (Inl f, h')
            | Some (Inr nextState, h') \<Rightarrow>
                if isError nextState then Some (Inr nextState, h')
                else (case assertion nextState of
                        Some assertionResult \<Rightarrow> Some (updateParseError nextState assertionResult, h')
                      | None \<Rightarrow> Some (Inr nextState, h'))))"

text \<open>The token branch of \<open>map\<close> (lines 1338-1346).\<close>

definition map_transformer ::
  "('d, 'e) ttransformer \<Rightarrow> (('d, 'e) parse_state \<Rightarrow> 'd semantics)
     \<Rightarrow> (('d, 'e) parse_state \<Rightarrow> 'e semantics) \<Rightarrow> ('d, 'e) ttransformer" where
  "map_transformer parser mdata merror state h =
     (case parser state h of
        None \<Rightarrow> None
      | Some (Inl f, h') \<Rightarrow> Some (Inl f, h')
      | Some (Inr nextState, h') \<Rightarrow>
          if isError nextState
          then Some (updateParseError nextState (merror nextState), h')
          else Some (updateParseResult nextState (index nextState) (mdata nextState) None, h'))"

definition map_parser ::
  "nat \<Rightarrow> ('d, 'e) ttransformer \<Rightarrow> (('d, 'e) parse_state \<Rightarrow> 'd semantics)
     \<Rightarrow> (('d, 'e) parse_state \<Rightarrow> 'e semantics) \<Rightarrow> ('d, 'e) ttransformer" where
  "map_parser self parser mdata merror = TokenParser self (map_transformer parser mdata merror)"

subsection \<open>chain\<close>

text \<open>
  The token branch of \<open>chain\<close> (lines 1407-1440). \<open>backrefs\<close> is the map of one invocation; every link
  writes it before it calls the next link, and only the last link (the action) reads it,
  so it is passed along the links. The action reads \<open>searchState.data\<close> of the states
  along the chain, and a back reference may be a \<open>ParseError\<close> (the input of a parser that
  recovered from it), which has no field \<open>data\<close>: the read gives \<open>undefined\<close>, here \<open>None\<close>,
  and the array handed to the action holds it. An action is therefore a function of a
  list of optional values.
\<close>

fun data_of :: "('d, 'e) parse_state \<Rightarrow> 'd semantics option" where
  "data_of (ParseResult t i r d) = Some d"
| "data_of (ParseError t i r e) = None"

text \<open>
  The loop \<open>for (i = n - 1; i >= 0; i--)\<close> of the action: \<open>collect_data i\<close> fills
  \<open>data[0..i-1]\<close>, starting at \<open>searchState\<close>; a missing back reference is \<open>undefined\<close>
  and the next read of it throws.
\<close>

fun collect_data ::
  "nat \<Rightarrow> (string \<rightharpoonup> ('d, 'e) parse_state) \<Rightarrow> ('d, 'e) parse_state option
     \<Rightarrow> fault + 'd semantics option list" where
  "collect_data 0 backrefs searchState = Inr []"
| "collect_data (Suc i) backrefs None = Inl TypeError"
| "collect_data (Suc i) backrefs (Some s) =
     (case collect_data i backrefs (backrefs (state_identity s)) of
        Inl f \<Rightarrow> Inl f
      | Inr ds \<Rightarrow> Inr (ds @ [data_of s]))"

definition action_transformer ::
  "nat \<Rightarrow> ('d semantics option list \<Rightarrow> 'd semantics) \<Rightarrow> (string \<rightharpoonup> ('d, 'e) parse_state)
     \<Rightarrow> ('d, 'e) ttransformer" where
  "action_transformer n action backrefs state h =
     (if isError state then Some (Inr state, h)
      else (case collect_data n backrefs (Some state) of
              Inl f \<Rightarrow> Some (Inl f, h)
            | Inr data' \<Rightarrow> Some (updateParseResult state (index state) (action data') None, h)))"

definition chain_link ::
  "('d, 'e) ttransformer \<Rightarrow> bool \<Rightarrow> ((string \<rightharpoonup> ('d, 'e) parse_state) \<Rightarrow> ('d, 'e) ttransformer)
     \<Rightarrow> (string \<rightharpoonup> ('d, 'e) parse_state) \<Rightarrow> ('d, 'e) ttransformer" where
  "chain_link parser hasAction nextChain backrefs =
     TokenParser_local (\<lambda>state h.
       case parser state h of
         None \<Rightarrow> None
       | Some (Inl f, h') \<Rightarrow> Some (Inl f, h')
       | Some (Inr nextState, h') \<Rightarrow>
           nextChain (if hasAction \<and> \<not> isError nextState
                      then backrefs(state_identity nextState \<mapsto> state) else backrefs)
             nextState h')"

text \<open>\<open>parsers\<close> has the tuple type \<open>[P, ...P[]]\<close>: a first parser and the others.\<close>

definition chain_transformer ::
  "('d, 'e) ttransformer \<Rightarrow> ('d, 'e) ttransformer list
     \<Rightarrow> ('d semantics option list \<Rightarrow> 'd semantics) option \<Rightarrow> ('d, 'e) ttransformer" where
  "chain_transformer p ps action state h =
     (let parsers = p # ps
      in case action of
           Some a \<Rightarrow>
             foldr (\<lambda>parser nextChain. chain_link parser True nextChain) parsers
               (\<lambda>backrefs. TokenParser_local (action_transformer (length parsers) a backrefs))
               Map.empty state h
         | None \<Rightarrow>
             foldr (\<lambda>parser nextChain. chain_link parser False nextChain) (butlast parsers)
               (\<lambda>backrefs. last parsers)
               Map.empty state h)"

definition chain ::
  "nat \<Rightarrow> ('d, 'e) ttransformer \<Rightarrow> ('d, 'e) ttransformer list
     \<Rightarrow> ('d semantics option list \<Rightarrow> 'd semantics) option \<Rightarrow> ('d, 'e) ttransformer" where
  "chain self p ps action = TokenParser self (chain_transformer p ps action)"

section \<open>Symbol parsers\<close>

text \<open>
  The class \<open>SymbolParser\<close> (lines 657-872), with \<open>toSymbol\<close> (772-778), \<open>alternatives\<close>
  (1536-1548) and \<open>empty\<close> (1555-1557). Continuations and continuation-passing
  transformers are closures of the source; here they are data, interpreted by
  \<open>continue\<close> and \<open>invoke\<close> below.
  \<^item> \<open>Collect\<close> is the continuation that \<open>generate\<close> creates: \<open>results.push(state)\<close>.
  \<^item> \<open>Publisher self state\<close> is the function that the constructor of \<open>SymbolParser\<close>
    pushes on the parse stack together with the transformer; it captures the parser
    (\<open>self\<close>, the address of the object) and the input state.
  A function object carries a number, so that \<open>===\<close> on functions can be decided: two
  transformers are the same function when they carry the same number.
\<close>

datatype ('d, 'e) continuation = Collect | Publisher nat "('d, 'e) parse_state"

datatype ('d, 'e) stransformer =
    toSymbol_fn nat "('d, 'e) ttransformer"
  | empty_fn nat
  | alternatives_fn nat "('d, 'e) sparser list"
  | wrapped "('d, 'e) sparser"
and ('d, 'e) sparser =
    SymbolParser (self: nat) (raw: "('d, 'e) stransformer")

text \<open>
  \<open>wrapped p\<close> is the field \<open>p.transformer\<close>, the function installed by the constructor
  around \<open>raw p\<close>, the transformer it was given.
\<close>

fun fn_ref :: "('d, 'e) stransformer \<Rightarrow> nat + nat" where
  "fn_ref (toSymbol_fn i parser) = Inl i"
| "fn_ref (empty_fn i) = Inl i"
| "fn_ref (alternatives_fn i parsers) = Inl i"
| "fn_ref (wrapped p) = Inr (self p)"

definition same_function :: "('d, 'e) stransformer \<Rightarrow> ('d, 'e) stransformer \<Rightarrow> bool" where
  "same_function f g = (fn_ref f = fn_ref g)"

text \<open>Every array object is truthy, whatever its length.\<close>

definition array_truthy :: "'a list \<Rightarrow> bool" where
  "array_truthy xs = True"

text \<open>
  A memotable entry is an object with a \<open>results\<close> map (kept in insertion order) and a
  \<open>continuations\<close> array. Entries live in a store of their own: \<open>memotable.clear()\<close>
  drops the keys, not the objects an iteration may still hold.
\<close>

record ('d, 'e) entry =
  results :: "(string \<times> ('d, 'e) parse_state) list"
  continuations :: "('d, 'e) continuation list"

type_synonym ('d, 'e) ParseStack =
  "(('d, 'e) stransformer \<times> ('d, 'e) parse_state \<times> ('d, 'e) continuation) list"

text \<open>
  Everything a run can change: the token parsers' tables, the table and current target
  of each symbol parser, the entry objects, the parse stack and the \<open>results\<close> array of
  \<open>generate\<close> (both owned by one invocation), and the static \<open>MAX_AMBIGUITY_BREADTH\<close>,
  a natural number or \<open>\<infinity>\<close> for \<open>Infinity\<close>. The top of the parse stack is the head of
  the list.
\<close>

record ('d, 'e) world =
  token_heap :: "('d, 'e) theap"
  currentTarget :: "nat \<Rightarrow> string"
  memotable :: "nat \<Rightarrow> (string \<rightharpoonup> nat)"
  entries :: "nat \<Rightarrow> ('d, 'e) entry"
  next_entry :: nat
  parseStack :: "('d, 'e) ParseStack"
  run_results :: "('d, 'e) parse_state list"
  MAX_AMBIGUITY_BREADTH :: enat

type_synonym ('d, 'e) effect = "(fault option \<times> ('d, 'e) world) option"

text \<open>Sequencing: a fault or a computation that does not return ends the sequence.\<close>

definition and_then ::
  "('d, 'e) effect \<Rightarrow> (('d, 'e) world \<Rightarrow> ('d, 'e) effect) \<Rightarrow> ('d, 'e) effect" where
  "and_then e f = (case e of None \<Rightarrow> None
                   | Some (Some fault', w) \<Rightarrow> Some (Some fault', w)
                   | Some (None, w) \<Rightarrow> f w)"

definition push_continuation ::
  "nat \<Rightarrow> ('d, 'e) continuation \<Rightarrow> ('d, 'e) world \<Rightarrow> ('d, 'e) world" where
  "push_continuation ea k w =
     w\<lparr>entries := (entries w)(ea := (entries w ea)\<lparr>continuations := continuations (entries w ea) @ [k]\<rparr>)\<rparr>"

definition set_result ::
  "nat \<Rightarrow> ('d, 'e) parse_state \<Rightarrow> ('d, 'e) world \<Rightarrow> ('d, 'e) world" where
  "set_result ea r w =
     w\<lparr>entries := (entries w)(ea := (entries w ea)\<lparr>results := results (entries w ea) @ [(state_identity r, r)]\<rparr>)\<rparr>"

definition full_length_results :: "('d, 'e) entry \<Rightarrow> nat" where
  "full_length_results e =
     length (filter (\<lambda>value. index (snd value) = int (length (target (snd value)))) (results e))"

text \<open>
  The interpreter. The first argument bounds the number of nested calls; \<open>None\<close> means
  that the bound was reached.
  \<^item> \<open>invoke\<close>: call a transformer with \<open>(state, continuation, parseStack)\<close>;
  \<^item> \<open>continue\<close>: call a continuation with a state;
  \<^item> \<open>replay\<close>: \<open>results.forEach(result => continuation(result))\<close> on a memo hit, which also
    visits the results added while it runs;
  \<^item> \<open>notify\<close>: \<open>continuations.forEach(continuation => continuation(resultState))\<close>, over the
    length the array had when it started;
  \<^item> \<open>dispatch\<close>: the loop \<open>for (let parser of parsers)\<close> of \<open>alternatives\<close>.
\<close>

function (sequential) invoke ::
    "nat \<Rightarrow> ('d, 'e) stransformer \<Rightarrow> ('d, 'e) parse_state \<Rightarrow> ('d, 'e) continuation
       \<Rightarrow> ('d, 'e) world \<Rightarrow> ('d, 'e) effect"
  and continue ::
    "nat \<Rightarrow> ('d, 'e) continuation \<Rightarrow> ('d, 'e) parse_state \<Rightarrow> ('d, 'e) world \<Rightarrow> ('d, 'e) effect"
  and replay ::
    "nat \<Rightarrow> nat \<Rightarrow> nat \<Rightarrow> ('d, 'e) continuation \<Rightarrow> ('d, 'e) world \<Rightarrow> ('d, 'e) effect"
  and notify ::
    "nat \<Rightarrow> nat \<Rightarrow> nat \<Rightarrow> nat \<Rightarrow> ('d, 'e) parse_state \<Rightarrow> ('d, 'e) world \<Rightarrow> ('d, 'e) effect"
  and dispatch ::
    "nat \<Rightarrow> ('d, 'e) sparser list \<Rightarrow> ('d, 'e) parse_state \<Rightarrow> ('d, 'e) continuation
       \<Rightarrow> ('d, 'e) world \<Rightarrow> ('d, 'e) effect"
where
  "invoke 0 t state k w = None"
| "invoke (Suc n) (toSymbol_fn i parser) state k w =
     (case parser state (token_heap w) of
        None \<Rightarrow> None
      | Some (Inl f, h') \<Rightarrow> Some (Some f, w\<lparr>token_heap := h'\<rparr>)
      | Some (Inr out, h') \<Rightarrow> continue n k out (w\<lparr>token_heap := h'\<rparr>))"
| "invoke (Suc n) (empty_fn i) state k w = continue n k state w"
| "invoke (Suc n) (alternatives_fn i parsers) state k w =
     (if isError state then continue n k state w else dispatch n parsers state k w)"
| "invoke (Suc n) (wrapped p) state k w =
     (let w1 = (if target state \<noteq> currentTarget w (self p)
                then w\<lparr>memotable := (memotable w)(self p := Map.empty),
                       currentTarget := (currentTarget w)(self p := target state)\<rparr>
                else w)
      in case memotable w1 (self p) (state_identity state) of
           Some ea \<Rightarrow> replay n ea 0 k (push_continuation ea k w1)
         | None \<Rightarrow>
             (let ea = next_entry w1;
                  w2 = w1\<lparr>entries := (entries w1)(ea := \<lparr>results = [], continuations = []\<rparr>),
                          next_entry := Suc ea,
                          memotable := (memotable w1)(self p :=
                             (memotable w1 (self p))(state_identity state \<mapsto> ea))\<rparr>;
                  w3 = push_continuation ea k w2
              in if array_truthy
                      (filter (\<lambda>item. same_function (fst item) (raw p)
                                       \<and> state_identity (fst (snd item)) = state_identity state)
                         (parseStack w3))
                 then Some (None, w3\<lparr>parseStack := (raw p, state, Publisher (self p) state) # parseStack w3\<rparr>)
                 else Some (None, w3)))"
| "continue 0 k r w = None"
| "continue (Suc n) Collect r w = Some (None, w\<lparr>run_results := run_results w @ [r]\<rparr>)"
| "continue (Suc n) (Publisher self' state) resultState w =
     (case memotable w self' (state_identity state) of
        None \<Rightarrow> Some (Some TypeError, w)
      | Some ea \<Rightarrow>
          if MAX_AMBIGUITY_BREADTH w \<noteq> \<infinity>
             \<and> enat (full_length_results (entries w ea)) > MAX_AMBIGUITY_BREADTH w
          then Some (Some MaxAmbiguityBreadth, w)
          else if map_of (results (entries w ea)) (state_identity resultState) = None
          then (let w1 = set_result ea resultState w
                in notify n ea 0 (length (continuations (entries w1 ea))) resultState w1)
          else Some (None, w))"
| "replay 0 ea i k w = None"
| "replay (Suc n) ea i k w =
     (if i < length (results (entries w ea))
      then and_then (continue n k (snd (results (entries w ea) ! i)) w) (replay n ea (Suc i) k)
      else Some (None, w))"
| "notify 0 ea i len resultState w = None"
| "notify (Suc n) ea i len resultState w =
     (if i < len
      then and_then (continue n (continuations (entries w ea) ! i) resultState w)
             (notify n ea (Suc i) len resultState)
      else Some (None, w))"
| "dispatch 0 parsers state k w = None"
| "dispatch (Suc n) [] state k w = Some (None, w)"
| "dispatch (Suc n) (parser # parsers) state k w =
     and_then (invoke n (wrapped parser) state k w) (dispatch n parsers state k)"
  by pat_completeness auto
termination
  by (relation "measure (\<lambda>x. case x of
          Inl (Inl a) \<Rightarrow> fst a | Inl (Inr b) \<Rightarrow> fst b
        | Inr (Inl c) \<Rightarrow> fst c | Inr (Inr (Inl d)) \<Rightarrow> fst d | Inr (Inr (Inr e)) \<Rightarrow> fst e)")
     simp_all

definition toSymbol :: "nat \<Rightarrow> nat \<Rightarrow> ('d, 'e) ttransformer \<Rightarrow> ('d, 'e) sparser" where
  "toSymbol self' fn parser = SymbolParser self' (toSymbol_fn fn parser)"

definition empty_parser :: "nat \<Rightarrow> nat \<Rightarrow> ('d, 'e) sparser" where
  "empty_parser self' fn = SymbolParser self' (empty_fn fn)"

definition alternatives :: "nat \<Rightarrow> nat \<Rightarrow> ('d, 'e) sparser list \<Rightarrow> ('d, 'e) sparser" where
  "alternatives self' fn parsers = SymbolParser self' (alternatives_fn fn parsers)"

subsection \<open>Drivers\<close>

text \<open>
  \<open>generate\<close> (lines 794-820) and \<open>run\<close> (833-847). \<open>work_loop\<close> is the inner loop
  \<open>while (parseStack.length > 0 && results.length <= resultsCount)\<close>.
\<close>

fun work_loop :: "nat \<Rightarrow> nat \<Rightarrow> ('d, 'e) world \<Rightarrow> ('d, 'e) effect" where
  "work_loop 0 resultsCount w = None"
| "work_loop (Suc n) resultsCount w =
     (case parseStack w of
        [] \<Rightarrow> Some (None, w)
      | (transformer, nextState, continuation) # rest \<Rightarrow>
          if length (run_results w) \<le> resultsCount
          then and_then (invoke n transformer nextState continuation (w\<lparr>parseStack := rest\<rparr>))
                 (work_loop n resultsCount)
          else Some (None, w))"

text \<open>The loop \<open>while (results.length > resultsCount)\<close>, with the states it yields.\<close>

function yield_loop ::
  "('d, 'e) parse_state list \<Rightarrow> nat \<Rightarrow> ('d, 'e) parse_state list
     \<Rightarrow> nat \<times> ('d, 'e) parse_state list" where
  "yield_loop results' resultsCount yielded =
     (if length results' > resultsCount
      then yield_loop results' (resultsCount + 1) (yielded @ [results' ! resultsCount])
      else (resultsCount, yielded))"
  by pat_completeness auto
termination
  by (relation "measure (\<lambda>(results', resultsCount, yielded). length results' - resultsCount)") auto

fun generate_loop ::
  "nat \<Rightarrow> nat \<Rightarrow> ('d, 'e) parse_state list \<Rightarrow> ('d, 'e) world
     \<Rightarrow> ((fault + ('d, 'e) parse_state list) \<times> ('d, 'e) world) option" where
  "generate_loop 0 resultsCount yielded w = None"
| "generate_loop (Suc n) resultsCount yielded w =
     (if length (parseStack w) > 0
      then (case work_loop n resultsCount w of
              None \<Rightarrow> None
            | Some (Some f, w') \<Rightarrow> Some (Inl f, w')
            | Some (None, w') \<Rightarrow>
                (case yield_loop (run_results w') resultsCount yielded of
                   (resultsCount', yielded') \<Rightarrow> generate_loop n resultsCount' yielded' w'))
      else Some (Inr yielded, w))"

text \<open>
  \<open>generate\<close>, drained: the list of the states it yields. The optional \<open>index\<close> is
  \<open>None\<close> when it is left out.
\<close>

definition generate ::
  "nat \<Rightarrow> ('d, 'e) sparser \<Rightarrow> string \<Rightarrow> 'd semantics \<Rightarrow> int option \<Rightarrow> ('d, 'e) world
     \<Rightarrow> ((fault + ('d, 'e) parse_state list) \<times> ('d, 'e) world) option" where
  "generate fuel parser target' data' index' w =
     (let w0 = w\<lparr>run_results := [], parseStack := []\<rparr>
      in case new_ParseResult target' (case index' of None \<Rightarrow> 0 | Some i \<Rightarrow> i) [] data' of
           Inl f \<Rightarrow> Some (Inl f, w0)
         | Inr state \<Rightarrow>
             generate_loop fuel 0 [] (w0\<lparr>parseStack := [(wrapped parser, state, Collect)]\<rparr>))"

text \<open>
  The statements of \<open>run\<close> after its loop over the generator. The comparator
  \<open>a.index - b.index\<close> sorts by index, and the sort of the host is stable; reading
  \<open>index\<close> of the last element of an empty array throws.
\<close>

definition run_select :: "('d, 'e) parse_state list \<Rightarrow> fault + ('d, 'e) parse_state list" where
  "run_select results' =
     (let sorted' = sort_key index results'
      in if sorted' = [] then Inl TypeError
         else (let maxIndex = index (last sorted');
                   maxResults = filter (\<lambda>state. index state \<ge> maxIndex) sorted';
                   nonErrorResults = filter (\<lambda>state. \<not> isError state) maxResults
               in Inr (if length nonErrorResults > 0 then nonErrorResults else maxResults)))"

definition run ::
  "nat \<Rightarrow> ('d, 'e) sparser \<Rightarrow> string \<Rightarrow> 'd semantics \<Rightarrow> int option \<Rightarrow> ('d, 'e) world
     \<Rightarrow> ((fault + ('d, 'e) parse_state list) \<times> ('d, 'e) world) option" where
  "run fuel parser target' data' index' w =
     (case generate fuel parser target' data' index' w of
        None \<Rightarrow> None
      | Some (Inl f, w') \<Rightarrow> Some (Inl f, w')
      | Some (Inr results', w') \<Rightarrow> Some (run_select results', w'))"

definition fresh_world :: "('d, 'e) theap \<Rightarrow> enat \<Rightarrow> ('d, 'e) world" where
  "fresh_world h limit =
     \<lparr>token_heap = h, currentTarget = (\<lambda>a. []), memotable = (\<lambda>a. Map.empty),
      entries = (\<lambda>a. \<lparr>results = [], continuations = []\<rparr>), next_entry = 0,
      parseStack = [], run_results = [], MAX_AMBIGUITY_BREADTH = limit\<rparr>"

section \<open>Example parsers\<close>

text \<open>The error productions and parsers of the test suite, used for the concrete runs below.\<close>

definition EOF :: "unit ParseErrorProduction" where
  "EOF target' index' = StaticSemantics ''EOF'' ()"

definition MATCH :: "unit ParseErrorProduction" where
  "MATCH target' index' = StaticSemantics ''match'' ()"

definition no :: "unit semantics" where
  "no = NoSemantics"

text \<open>\<open>alternatives([toSymbol(str("a")), toSymbol(str("b"))])\<close>.\<close>

definition ab_alternatives :: "(unit, unit) sparser" where
  "ab_alternatives =
     alternatives 0 100 [toSymbol 1 101 (str 0 ''a'' EOF MATCH), toSymbol 2 102 (str 1 ''b'' EOF MATCH)]"

text \<open>
  Two readings of the same input with different semantic identities:
  \<open>alternatives([toSymbol(map(a, s => x, s => s.error)), toSymbol(map(a, s => y, s => s.error))])\<close>
  with \<open>a = str("a")\<close>, \<open>x = StaticSemantics("x")\<close> and \<open>y = StaticSemantics("y")\<close>.
\<close>

definition xy_alternatives :: "(unit, unit) sparser" where
  "xy_alternatives =
     alternatives 0 100
       [toSymbol 1 101 (map_parser 1 (str 0 ''a'' EOF MATCH) (\<lambda>s. StaticSemantics ''x'' ()) error),
        toSymbol 2 102 (map_parser 2 (str 0 ''a'' EOF MATCH) (\<lambda>s. StaticSemantics ''y'' ()) error)]"

text \<open>
  Two symbol parsers constructed from one and the same transformer function
  \<open>f = (state, continuation, parseStack) => continuation(state)\<close>:
  \<open>alternatives([new SymbolParser(f), new SymbolParser(f)])\<close>.
\<close>

definition twin_alternatives :: "(unit, unit) sparser" where
  "twin_alternatives = alternatives 0 100 [SymbolParser 1 (empty_fn 7), SymbolParser 2 (empty_fn 7)]"






section \<open>Auxiliary facts\<close>

lemma TokenParser_local_eq: "TokenParser_local f = f"
  by (rule ext, rule ext) (simp add: TokenParser_local_def fresh_memo_def Let_def)

text \<open>
  The constructor's wrapper calls the transformer it is given at most once, on the
  store it has after the target check.
\<close>

lemma TokenParser_cong_miss:
  assumes "\<And>h1. h1 = (if target s \<noteq> t_currentTarget (h addr)
                then h(addr := \<lparr>t_currentTarget = target s, t_memotable = Map.empty\<rparr>) else h)
              \<Longrightarrow> f s h1 = g s h1"
  shows "TokenParser addr f s h = TokenParser addr g s h"
  using assms
  by (cases "target s \<noteq> t_currentTarget (h addr)")
     (simp_all add: TokenParser_def Let_def cong: option.case_cong)






lemma data_of_result: "\<not> isError s \<Longrightarrow> data_of s = Some (data s)"
  by (cases s) simp_all


lemmas token_eval =
  str_def TokenParser_def str_transformer_def fresh_heap_def fresh_memo_def
  updateParseResult_def updateParseError_def new_ParseResult_def new_ParseError_def
  slice_def startsWith_def substring_def string_of_int_def Number_toString_def digit_char_def Let_def
  EOF_def MATCH_def StaticSemantics_def no_def

text \<open>
  The identity of a state renders the index as the host does: all digits below \<open>2^53\<close>,
  the shortest digits that denote the number above, in exponent form from \<open>10^21\<close> on.
\<close>

lemma index_rendering:
  "string_of_int 12 = ''12''
   \<and> string_of_int (- 1) = ''-1''
   \<and> string_of_int 1152921504606846976 = ''1152921504606847000''
   \<and> string_of_int (10 ^ 21) = ''1e+21''
   \<and> state_identity (ParseError ''a'' (- (10 ^ 21)) [] no :: (unit, unit) parse_state) = ''a_-1e+21''"
  by code_simp

text \<open>
  The action of a chain is handed \<open>undefined\<close> for a link whose input state was an error:
  in \<open>chain([error(e), recovery(d)], action)\<close> the back reference of the final state is the
  \<open>ParseError\<close> that \<open>recovery\<close> received.
\<close>

lemma chain_action_reads_undefined:
  "map_option fst
     (TokenParser_run
        (chain 2 (error_parser 0 (StaticSemantics ''e'' ())) [recovery 1 (StaticSemantics ''d'' ())]
           (Some (\<lambda>ds. case ds of [None, Some d] \<Rightarrow> StaticSemantics ''first is undefined'' () | _ \<Rightarrow> no)))
        ''a'' no None fresh_heap)
     = Some (Inr [ParseResult ''a'' 0 [] (StaticSemantics ''first is undefined'' ())])"
  by (simp add: TokenParser_run_def chain_def chain_transformer_def chain_link_def TokenParser_local_eq
        action_transformer_def error_parser_def error_transformer_def recovery_def
        recovery_transformer_def token_eval)











text \<open>The stable sort of \<open>run\<close> and the collection of the yielded states.\<close>

lemma sorted_map_last: "sorted (map f ys) \<Longrightarrow> x \<in> set ys \<Longrightarrow> f x \<le> f (last ys)"
  by (induction ys) auto

lemma last_sort_key_Max:
  fixes f :: "'a \<Rightarrow> int"
  assumes "xs \<noteq> []"
  shows "f (last (sort_key f xs)) = Max (f ` set xs)"
proof -
  let ?ys = "sort_key f xs"
  have ne: "?ys \<noteq> []" using assms by (metis length_0_conv length_sort)
  have le: "\<And>x. x \<in> set xs \<Longrightarrow> f x \<le> f (last ?ys)"
    using sorted_map_last[of f ?ys] by simp
  have mem: "last ?ys \<in> set xs" using ne last_in_set[of ?ys] by simp
  show ?thesis
    using le mem assms by (intro Max_eqI[symmetric]) auto
qed

lemma run_select_eq:
  assumes "results' \<noteq> []"
  shows "run_select results' =
     Inr (let maxIndex = Max (index ` set results');
              maxResults = filter (\<lambda>state. index state = maxIndex) results'
          in if \<exists>state \<in> set maxResults. \<not> isError state
             then filter (\<lambda>state. \<not> isError state) maxResults
             else maxResults)"
proof -
  let ?M = "Max (index ` set results')"
  have ne: "sort_key index results' \<noteq> []" using assms by (metis length_0_conv length_sort)
  have M: "index (last (sort_key index results')) = ?M"
    using last_sort_key_Max[OF assms] .
  have le: "\<And>s. s \<in> set results' \<Longrightarrow> index s \<le> ?M" by simp
  have f1: "filter (\<lambda>state. index state \<ge> ?M) (sort_key index results')
            = filter (\<lambda>state. index state = ?M) (sort_key index results')"
    by (rule filter_cong) (use le in \<open>auto simp: antisym\<close>)
  have f2: "filter (\<lambda>state. index state = ?M) (sort_key index results')
            = filter (\<lambda>state. index state = ?M) results'"
    by (rule sort_key_stable)
  have len: "\<And>xs :: ('a, 'b) parse_state list. (length (filter (\<lambda>state. \<not> isError state) xs) > 0) = (\<exists>state \<in> set xs. \<not> isError state)"
    by (auto simp: filter_empty_conv)
  have ms: "filter (\<lambda>state. index state \<ge> index (last (sort_key index results'))) (sort_key index results')
            = filter (\<lambda>state. index state = ?M) results'"
    using M f1 f2 by simp
  have "run_select results' =
          Inr (if length (filter (\<lambda>state. \<not> isError state) (filter (\<lambda>state. index state = ?M) results')) > 0
               then filter (\<lambda>state. \<not> isError state) (filter (\<lambda>state. index state = ?M) results')
               else filter (\<lambda>state. index state = ?M) results')"
    unfolding run_select_def Let_def ms using ne by simp
  also have "\<dots> = Inr (let maxIndex = ?M;
              maxResults = filter (\<lambda>state. index state = maxIndex) results'
          in if \<exists>state \<in> set maxResults. \<not> isError state
             then filter (\<lambda>state. \<not> isError state) maxResults
             else maxResults)"
    unfolding Let_def len ..
  finally show ?thesis .
qed

lemma not_less_enat0: "\<not> (m::enat) < enat 0"
  by (simp add: zero_enat_def[symmetric])

lemma run_select_single: "run_select [r] = Inr [r]"
  by (simp add: run_select_def Let_def)

lemma yield_loop_all: "rc \<le> length rs \<Longrightarrow> yield_loop rs rc ys = (length rs, ys @ drop rc rs)"
proof (induction rs rc ys rule: yield_loop.induct)
  case (1 rs rc ys)
  show ?case
  proof (cases "rc < length rs")
    case True
    then show ?thesis using 1 by (subst yield_loop.simps) (simp add: Cons_nth_drop_Suc)
  next
    case False
    then show ?thesis using 1 by (subst yield_loop.simps) simp
  qed
qed

text \<open>
  On a memo miss the constructor's transformer pushes its work item whatever is pending
  on the parse stack: the filtered array is an object, and an object is truthy.
\<close>

lemma wrapped_pushes_whatever_is_pending:
  assumes "currentTarget w (self p) = target state"
      and "memotable w (self p) (state_identity state) = None"
  shows "\<exists>w'. invoke (Suc n) (wrapped p) state k w = Some (None, w')
           \<and> parseStack w' = (raw p, state, Publisher (self p) state) # parseStack w"
  using assms by (simp add: Let_def array_truthy_def push_continuation_def)

section \<open>State construction\<close>

text \<open>
  The checks of the two constructors, for an integer index: \<open>ParseResult\<close> checks the
  index against the length of the target and the length of the result against the index;
  \<open>ParseError\<close> checks the index against the length of the target only.
\<close>

lemma constructor_checks:
  "(new_ParseResult t i r d :: fault + ('d, 'e) parse_state)
     = (if 0 \<le> i \<and> i \<le> int (length t) \<and> int (length (concat r)) \<le> i
        then Inr (ParseResult t i r d) else Inl RangeError)
   \<and> (new_ParseError t i r e :: fault + ('d, 'e) parse_state)
     = (if i \<le> int (length t) then Inr (ParseError t i r e) else Inl RangeError)"
  by (auto simp: new_ParseResult_def new_ParseError_def)

text \<open>
  C5, the code at the failing input. \<open>new ParseError("ASDF", -1, ["ASDF"], no)\<close> is
  constructed: its index is negative and its result is longer than its index, and no
  \<open>RangeError\<close> is raised, where \<open>new ParseResult\<close> with the same target, index and result
  raises it. The constructor of \<open>ParseError\<close> has the guard \<open>index > target.length\<close> of its
  sibling and not the guard on the length of the result.
\<close>

theorem ParseError_unchecked_bounds:
  "(new_ParseError ''ASDF'' (- 1) [''ASDF''] no :: fault + (unit, unit) parse_state)
     = Inr (ParseError ''ASDF'' (- 1) [''ASDF''] no)
   \<and> (new_ParseResult ''ASDF'' (- 1) [''ASDF''] no :: fault + (unit, unit) parse_state)
     = Inl RangeError
   \<and> \<not> (0 \<le> index (ParseError ''ASDF'' (- 1) [''ASDF''] no :: (unit, unit) parse_state))
   \<and> \<not> (int (length (concat (result (ParseError ''ASDF'' (- 1) [''ASDF''] no :: (unit, unit) parse_state))))
          \<le> index (ParseError ''ASDF'' (- 1) [''ASDF''] no :: (unit, unit) parse_state))"
  by (simp add: new_ParseError_def new_ParseResult_def)

section \<open>until\<close>




section \<open>chain and map\<close>

text \<open>
  C8. For every token parser \<open>p\<close>, the transformer of the singleton \<open>chain([p])\<close> without
  an action is the transformer of \<open>p\<close>, so that a freshly constructed \<open>chain([p])\<close> gives
  the output of \<open>p\<close> on every input state. With an action \<open>a\<close>, \<open>chain([p], a)\<close> gives on
  every input state what \<open>map(p, s => a([s.data]), id)\<close> gives, \<open>id\<close> keeping the error
  value (\<open>s => s.error\<close>): the two transformers agree, and so do the two parser objects
  from the same state of their tables (here the table at \<open>addr\<close>). An error state that
  \<open>p\<close> returns is taken to have come out of its constructor, and \<open>p\<close> is taken not to
  use the table of the parser built around it.
\<close>

theorem chain_singleton:
  assumes out: "\<And>out h'. p s h = Some (Inr out, h') \<Longrightarrow> isError out \<Longrightarrow> constructed out"
      and fresh: "t_memotable (h addr) = Map.empty"
      and frame: "\<And>m. p s (h(addr := m)) = map_option (\<lambda>(r, h'). (r, h'(addr := m))) (p s h)"
  shows "chain_transformer p [] None s h = p s h
       \<and> chain_transformer p [] (Some a) s h = map_transformer p (\<lambda>s. a [Some (data s)]) error s h
       \<and> map_option fst (chain addr p [] None s h) = map_option fst (p s h)
       \<and> chain addr p [] (Some a) s h = map_parser addr p (\<lambda>s. a [Some (data s)]) error s h"
proof -
  have raw: "chain_transformer p [] (Some a) s h1 = map_transformer p (\<lambda>s. a [Some (data s)]) error s h1"
    if "\<And>out h'. p s h1 = Some (Inr out, h') \<Longrightarrow> isError out \<Longrightarrow> constructed out" for h1
  proof (cases "p s h1")
    case None
    then show ?thesis
      by (simp add: chain_transformer_def chain_link_def TokenParser_local_eq map_transformer_def)
  next
    case (Some x)
    obtain res h' where x: "x = (res, h')" by (cases x)
    show ?thesis
    proof (cases res)
      case (Inl f)
      with Some x show ?thesis
        by (simp add: chain_transformer_def chain_link_def TokenParser_local_eq map_transformer_def)
    next
      case (Inr out)
      show ?thesis
      proof (cases out)
        case (ParseResult t i r d)
        with Some x Inr show ?thesis
          by (simp add: chain_transformer_def chain_link_def TokenParser_local_eq map_transformer_def
                action_transformer_def)
      next
        case (ParseError t i r e)
        with Some x Inr that[of out h'] show ?thesis
          by (simp add: chain_transformer_def chain_link_def TokenParser_local_eq map_transformer_def
                action_transformer_def updateParseError_def new_ParseError_def)
      qed
    qed
  qed
  let ?h1 = "if target s \<noteq> t_currentTarget (h addr)
             then h(addr := \<lparr>t_currentTarget = target s, t_memotable = Map.empty\<rparr>) else h"
  have out1: "constructed out" if "p s ?h1 = Some (Inr out, h')" "isError out" for out h'
  proof (cases "target s \<noteq> t_currentTarget (h addr)")
    case True
    with that(1) frame[of "\<lparr>t_currentTarget = target s, t_memotable = Map.empty\<rparr>"]
    obtain h'' where "p s h = Some (Inr out, h'')" by auto
    with out that(2) show ?thesis by blast
  next
    case False
    with that out show ?thesis by auto
  qed
  have 1: "chain_transformer p [] None s h = p s h"
    by (simp add: chain_transformer_def)
  have 2: "chain_transformer p [] (Some a) s h = map_transformer p (\<lambda>s. a [Some (data s)]) error s h"
    by (rule raw) (use out in blast)
  have miss: "t_memotable (?h1 addr) (state_identity s) = None"
    using fresh by simp
  have fst1: "map_option fst (p s ?h1) = map_option fst (p s h)"
  proof (cases "target s \<noteq> t_currentTarget (h addr)")
    case True
    then show ?thesis
      using frame[of "\<lparr>t_currentTarget = target s, t_memotable = Map.empty\<rparr>"]
      by (cases "p s h") (auto simp: option.map_comp comp_def split: prod.splits)
  qed simp
  have 3: "map_option fst (chain addr p [] None s h) = map_option fst (p s h)"
  proof -
    have "map_option fst (chain addr p [] None s h) = map_option fst (p s ?h1)"
      using miss unfolding chain_def TokenParser_def Let_def
      by (auto simp: chain_transformer_def split: option.splits sum.splits prod.splits)
    with fst1 show ?thesis by simp
  qed
  have 4: "chain addr p [] (Some a) s h = map_parser addr p (\<lambda>s. a [Some (data s)]) error s h"
    unfolding chain_def map_parser_def
  proof (rule TokenParser_cong_miss)
    fix h1 assume "h1 = ?h1"
    then show "chain_transformer p [] (Some a) s h1 = map_transformer p (\<lambda>s. a [Some (data s)]) error s h1"
      using out1 by (intro raw) blast
  qed
  from 1 2 3 4 show ?thesis by simp
qed

theorem chain_singleton_witness:
  "t_memotable ((fresh_heap :: (unit, unit) theap) 5) = Map.empty
   \<and> (\<exists>h'. str 0 ''a'' EOF MATCH (ParseResult ''b'' 0 [] no) fresh_heap
            = Some (Inr (ParseError ''b'' 0 [] (StaticSemantics ''match'' ())), h'))
   \<and> isError (ParseError ''b'' 0 [] (StaticSemantics ''match'' ()) :: (unit, unit) parse_state)
   \<and> constructed (ParseError ''b'' 0 [] (StaticSemantics ''match'' ()) :: (unit, unit) parse_state)
   \<and> chain_transformer (str 0 ''a'' EOF MATCH) [] None (ParseResult ''b'' 0 [] no) fresh_heap
       = str 0 ''a'' EOF MATCH (ParseResult ''b'' 0 [] no) fresh_heap
   \<and> chain_transformer (str 0 ''a'' EOF MATCH) [] (Some (\<lambda>ds. StaticSemantics ''n'' ()))
         (ParseResult ''b'' 0 [] no) fresh_heap
       = map_transformer (str 0 ''a'' EOF MATCH) (\<lambda>s. StaticSemantics ''n'' ()) error
           (ParseResult ''b'' 0 [] no) fresh_heap
   \<and> map_option fst (chain 5 (str 0 ''a'' EOF MATCH) [] None (ParseResult ''b'' 0 [] no) fresh_heap)
       = map_option fst (str 0 ''a'' EOF MATCH (ParseResult ''b'' 0 [] no) fresh_heap)
   \<and> chain 5 (str 0 ''a'' EOF MATCH) [] (Some (\<lambda>ds. StaticSemantics ''n'' ()))
         (ParseResult ''b'' 0 [] no) fresh_heap
       = map_parser 5 (str 0 ''a'' EOF MATCH) (\<lambda>s. StaticSemantics ''n'' ()) error
           (ParseResult ''b'' 0 [] no) fresh_heap
   \<and> map_option fst (map_parser 5 (str 0 ''a'' EOF MATCH) (\<lambda>s. StaticSemantics ''n'' ()) error
         (ParseResult ''b'' 0 [] no) fresh_heap)
       = Some (Inr (ParseError ''b'' 0 [] (StaticSemantics ''match'' ())))"
proof -
  let ?s = "ParseResult ''b'' 0 [] no :: (unit, unit) parse_state"
  let ?e = "ParseError ''b'' 0 [] (StaticSemantics ''match'' ()) :: (unit, unit) parse_state"
  let ?p = "str 0 ''a'' EOF MATCH :: (unit, unit) ttransformer"
  obtain h' where run: "?p ?s fresh_heap = Some (Inr ?e, h')"
    by (simp add: token_eval)
  have fresh: "t_memotable ((fresh_heap :: (unit, unit) theap) 5) = Map.empty"
    by (simp add: fresh_heap_def fresh_memo_def)
  have frame: "\<And>m. ?p ?s (fresh_heap(5 := m))
                 = map_option (\<lambda>(r, h'). (r, h'(5 := m))) (?p ?s fresh_heap)"
    by (simp add: token_eval fun_upd_twist)
  have c: "chain_transformer ?p [] None ?s fresh_heap = ?p ?s fresh_heap
         \<and> chain_transformer ?p [] (Some (\<lambda>ds. StaticSemantics ''n'' ())) ?s fresh_heap
             = map_transformer ?p (\<lambda>s. StaticSemantics ''n'' ()) error ?s fresh_heap
         \<and> map_option fst (chain 5 ?p [] None ?s fresh_heap) = map_option fst (?p ?s fresh_heap)
         \<and> chain 5 ?p [] (Some (\<lambda>ds. StaticSemantics ''n'' ())) ?s fresh_heap
             = map_parser 5 ?p (\<lambda>s. StaticSemantics ''n'' ()) error ?s fresh_heap"
  proof (rule chain_singleton)
    fix out h''
    assume "?p ?s fresh_heap = Some (Inr out, h'')" and "isError out"
    with run show "constructed out" by auto
  qed (use fresh frame in auto)
  have m: "map_option fst (map_parser 5 ?p (\<lambda>s. StaticSemantics ''n'' ()) error ?s fresh_heap)
       = Some (Inr ?e)"
    by (simp add: map_parser_def map_transformer_def token_eval)
  from c run m fresh show ?thesis by auto
qed




section \<open>many and many1\<close>

text \<open>
  C3, the code at the failing input. \<open>chain([str("a"), many1(str("b"), MATCH)])\<close> run on
  the target \<open>"a"\<close>: \<open>many1\<close> receives a state whose result list is \<open>["a"]\<close>, its parser
  never succeeds and no token is appended, yet \<open>many1\<close> returns that state as a success
  and not the \<open>MATCH\<close> error: it tests \<open>nextState.result.length === 0\<close>, the length of the
  whole result list, not the tokens appended since its input state.
\<close>

theorem many1_after_token_no_match:
  "map_option fst
     (TokenParser_run (chain 3 (str 0 ''a'' EOF MATCH) [many1 2 (str 1 ''b'' EOF MATCH) MATCH] None)
        ''a'' no None fresh_heap)
     = Some (Inr [ParseResult ''a'' 1 [''a''] no])
   \<and> map_option fst
       (many1_transformer (str 1 ''b'' EOF MATCH) MATCH (ParseResult ''a'' 1 [''a''] no) fresh_heap)
     = Some (Inr (ParseResult ''a'' 1 [''a''] no))
   \<and> map_option fst
       (many1_transformer (str 1 ''b'' EOF MATCH) MATCH (ParseResult ''a'' 1 [''a''] no) fresh_heap)
     \<noteq> Some (Inr (ParseError ''a'' 1 [''a''] (MATCH ''a'' 1)))"
  by (simp add: TokenParser_run_def chain_def chain_transformer_def chain_link_def TokenParser_local_eq
        many1_def many1_transformer_def many_transformer_def many_loop.simps token_eval)




section \<open>Symbol parsers\<close>

text \<open>
  C1, the code at the failing input. The first two steps of the driver on
  \<open>alternatives([new SymbolParser(f), new SymbolParser(f)]).run("a", no)\<close>: the seed is
  popped and the parser's transformer pushes the transformer of \<open>alternatives\<close>; that one
  is popped and calls both parsers, which miss their memo and both push a work item for
  the same transformer \<open>f\<close> (function 7) and the same state identity \<open>"a_0"\<close>; when the
  second is pushed, the first is pending. The guard \<open>if (parseStack.filter(...))\<close> tests
  an array, which is always truthy.
\<close>

theorem symbol_parser_enqueues_pending_pair_again:
  "map_option (\<lambda>(f, w). (f, map (\<lambda>(t, s, k). (fn_ref t, state_identity s, k)) (parseStack w)))
     (and_then
        (invoke 5 (wrapped twin_alternatives) (ParseResult ''a'' 0 [] no) Collect
           (fresh_world fresh_heap \<infinity>))
        (\<lambda>w. case parseStack w of
                [] \<Rightarrow> Some (None, w)
              | (transformer, nextState, continuation) # rest \<Rightarrow>
                  invoke 5 transformer nextState continuation (w\<lparr>parseStack := rest\<rparr>)))
   = Some (None, [(Inl 7, ''a_0'', Publisher 2 (ParseResult ''a'' 0 [] no)),
                  (Inl 7, ''a_0'', Publisher 1 (ParseResult ''a'' 0 [] no))])"
  by code_simp

text \<open>
  C4. Whenever the generator of a symbol parser yields at least one state, \<open>run\<close> returns
  exactly the collected states whose index is the maximum index over all collected
  states (in the order they were collected): the non-error ones among them when there is
  one, and otherwise all of them, which are then error states.
\<close>

theorem run_returns_states_at_max_index:
  assumes "generate fuel parser t d i w = Some (Inr collected, w')" and "collected \<noteq> []"
  shows "run fuel parser t d i w =
           Some (Inr (let maxIndex = Max (index ` set collected);
                          maxResults = filter (\<lambda>state. index state = maxIndex) collected
                      in if \<exists>state \<in> set maxResults. \<not> isError state
                         then filter (\<lambda>state. \<not> isError state) maxResults
                         else maxResults), w')"
  using assms by (simp add: run_def run_select_eq)

theorem run_returns_states_at_max_index_witness:
  "\<exists>w'. generate 20 ab_alternatives ''a'' no None (fresh_world fresh_heap \<infinity>)
           = Some (Inr [ParseError ''a'' 0 [] (StaticSemantics ''match'' ()),
                        ParseResult ''a'' 1 [''a''] no], w')
       \<and> run 20 ab_alternatives ''a'' no None (fresh_world fresh_heap \<infinity>)
           = Some (Inr [ParseResult ''a'' 1 [''a''] no], w')"
proof -
  let ?collected = "[ParseError ''a'' 0 [] (StaticSemantics ''match'' ()),
                     ParseResult ''a'' 1 [''a''] no] :: (unit, unit) parse_state list"
  have "map_option fst (generate 20 ab_alternatives ''a'' no None (fresh_world fresh_heap \<infinity>))
          = Some (Inr ?collected)"
    by code_simp
  then obtain w' where gen:
    "generate 20 ab_alternatives ''a'' no None (fresh_world fresh_heap \<infinity>) = Some (Inr ?collected, w')"
    by auto
  have ne: "?collected \<noteq> []" by simp
  from run_returns_states_at_max_index [OF gen ne] gen show ?thesis
    by (intro exI[of _ w']) (simp add: Let_def)
qed

text \<open>
  C6, the code at the failing input. With \<open>MAX_AMBIGUITY_BREADTH = 1\<close>, the run of two
  alternatives that read the whole target \<open>"a"\<close> with different semantic identities ends
  without a fault, and the memo entry of \<open>alternatives\<close> (the first entry made) retains two
  results of full input length, more than the bound. The publisher counts the retained
  results before it stores the new one, and compares with \<open>>\<close>.
\<close>

theorem breadth_exceeded_without_fault:
  "map_option (\<lambda>(r, w). (r, full_length_results (entries w 0), MAX_AMBIGUITY_BREADTH w))
     (run 20 xy_alternatives ''a'' no None (fresh_world fresh_heap 1))
   = Some (Inr [ParseResult ''a'' 1 [''a''] (StaticSemantics ''y'' ()),
                ParseResult ''a'' 1 [''a''] (StaticSemantics ''x'' ())], 2, 1)"
  by code_simp

text \<open>
  C7. For every token parser \<open>p\<close>, target, initial data and index, a freshly constructed
  \<open>toSymbol(p)\<close> run with \<open>run\<close> gives what \<open>p.run\<close> gives: the same single state (and the
  same effect on the token parsers' tables), the same fault when the initial state cannot
  be constructed or \<open>p\<close> throws, and no return when \<open>p\<close> does not return. Seven nested
  calls are enough for the symbol driver.
\<close>

theorem toSymbol_run:
  assumes fresh: "memotable w self' = Map.empty" and fuel: "7 \<le> fuel"
  shows "map_option (\<lambda>(r, w'). (r, token_heap w')) (run fuel (toSymbol self' fn p) t d i w)
           = TokenParser_run p t d i (token_heap w)"
proof -
  from fuel obtain n where "fuel = 7 + n" using le_Suc_ex by blast
  then have n: "fuel = Suc (Suc (Suc (Suc (Suc (Suc (Suc n))))))" by simp
  show ?thesis
  proof (cases "new_ParseResult t (case i of None \<Rightarrow> 0 | Some i \<Rightarrow> i) [] d :: fault + ('a, 'b) parse_state")
    case (Inl f)
    then show ?thesis by (simp add: run_def generate_def TokenParser_run_def)
  next
    case (Inr s0)
    show ?thesis
    proof (cases "p s0 (token_heap w)")
      case None
      then show ?thesis using Inr fresh
        by (simp add: n run_def generate_def TokenParser_run_def toSymbol_def Let_def array_truthy_def
              and_then_def push_continuation_def)
    next
      case (Some a)
      obtain res h' where a: "a = (res, h')" by (cases a)
      show ?thesis
      proof (cases res)
        case (Inl f)
        then show ?thesis using Inr fresh Some a
          by (simp add: n run_def generate_def TokenParser_run_def toSymbol_def Let_def array_truthy_def
              and_then_def push_continuation_def)
      next
        case (Inr out)
        then show ?thesis using \<open>new_ParseResult t (case i of None \<Rightarrow> 0 | Some i \<Rightarrow> i) [] d = Inr s0\<close> fresh Some a
          by (simp add: n run_def generate_def TokenParser_run_def toSymbol_def Let_def array_truthy_def
              and_then_def push_continuation_def set_result_def full_length_results_def
              yield_loop_all run_select_single not_less_enat0)
      qed
    qed
  qed
qed

theorem toSymbol_run_witness:
  "memotable (fresh_world fresh_heap \<infinity> :: (unit, unit) world) 1 = Map.empty
   \<and> (7 :: nat) \<le> 7
   \<and> map_option (\<lambda>(r, w'). (r, token_heap w'))
         (run 7 (toSymbol 1 101 (str 0 ''a'' EOF MATCH)) ''ab'' no None (fresh_world fresh_heap \<infinity>))
       = TokenParser_run (str 0 ''a'' EOF MATCH) ''ab'' no None fresh_heap
   \<and> map_option fst (TokenParser_run (str 0 ''a'' EOF MATCH) ''ab'' no None fresh_heap)
       = Some (Inr [ParseResult ''ab'' 1 [''a''] no])"
proof -
  have fresh: "memotable (fresh_world fresh_heap \<infinity> :: (unit, unit) world) 1 = Map.empty"
    by (simp add: fresh_world_def)
  have h: "token_heap (fresh_world fresh_heap \<infinity> :: (unit, unit) world) = fresh_heap"
    by (simp add: fresh_world_def)
  have v: "map_option fst (TokenParser_run (str 0 ''a'' EOF MATCH) ''ab'' no None fresh_heap)
             = Some (Inr [ParseResult ''ab'' 1 [''a''] no])"
    by (simp add: TokenParser_run_def token_eval)
  from toSymbol_run [OF fresh order_refl, of 101 "str 0 ''a'' EOF MATCH" "''ab''" no None] fresh h v
  show ?thesis by simp
qed

end
